theory Spec2Isabelle
  imports Main
begin

section \<open>get\_lol\_id.py: the values, the effects and the script\<close>

text \<open>
  The script \<^verbatim>\<open>get_lol_id.py\<close> reads \<^verbatim>\<open>sys.argv\<close>, builds a
  \<^verbatim>\<open>LolWatcher\<close> from the first argument, asks it for the active game of the player
  named by the second argument and prints the \<^verbatim>\<open>riotId\<close> of every participant.

  What the embedding fixes:
  \<^item> The client library \<^verbatim>\<open>riotwatcher\<close> is not part of the repository. It is a
    parameter of the model (the record \<open>riotwatcher\<close> below): its constructor and its
    \<^verbatim>\<open>spectator.by_summoner\<close> operation either return or raise. The import in line 1
    is taken to succeed.
  \<^item> The values the client hands back are JSON-shaped Python objects (\<open>pyval\<close>):
    \<^verbatim>\<open>None\<close>, booleans, integers, strings, lists and dictionaries with string keys.
    Floats are left out (only their \<^verbatim>\<open>repr\<close> would differ from an integer here).
  \<^item> A string is a list of \<open>char\<close>; a \<open>char\<close> stands for the code point of the same
    number, so the strings of the model are the Python strings over code points below 256.
  \<^item> Writing to standard output is taken to succeed.
\<close>

subsection \<open>Python values and exceptions\<close>

datatype pyval =
    PyNone
  | PyBool bool
  | PyInt int
  | PyStr string
  | PyList "pyval list"
  | PyDict "(string \<times> pyval) list"

text \<open>
  A dictionary is the list of its items in insertion order; Python keeps keys distinct.

  The exceptions that can end the script: \<open>KeyError k\<close> and \<open>TypeError\<close> are raised by
  the interpreter on a subscript or an iteration, \<open>LibraryError d\<close> is any exception raised
  inside the client library (\<open>d\<close> describes it).
\<close>

datatype pyexn = KeyError string | TypeError | LibraryError string

subsection \<open>Subscript and iteration\<close>

text \<open>
  \<^verbatim>\<open>obj[key]\<close> with a string key: a dictionary looks the key up and raises
  \<^verbatim>\<open>KeyError\<close> when it is missing; a list or a string rejects a string index,
  and \<^verbatim>\<open>None\<close>, booleans and integers are not subscriptable (\<^verbatim>\<open>TypeError\<close>).
\<close>

fun py_getitem :: "pyval \<Rightarrow> string \<Rightarrow> pyexn + pyval" where
  "py_getitem (PyDict items) key =
     (case map_of items key of None \<Rightarrow> Inl (KeyError key) | Some v \<Rightarrow> Inr v)"
| "py_getitem (PyList xs) key = Inl TypeError"
| "py_getitem (PyStr s) key = Inl TypeError"
| "py_getitem PyNone key = Inl TypeError"
| "py_getitem (PyBool b) key = Inl TypeError"
| "py_getitem (PyInt i) key = Inl TypeError"

text \<open>
  \<^verbatim>\<open>for x in obj\<close>: a list yields its elements, a dictionary its keys, a string its
  characters as one-character strings; anything else is not iterable.
\<close>

fun py_iter :: "pyval \<Rightarrow> pyexn + pyval list" where
  "py_iter (PyList xs) = Inr xs"
| "py_iter (PyDict items) = Inr (map (\<lambda>kv. PyStr (fst kv)) items)"
| "py_iter (PyStr s) = Inr (map (\<lambda>c. PyStr [c]) s)"
| "py_iter PyNone = Inl TypeError"
| "py_iter (PyBool b) = Inl TypeError"
| "py_iter (PyInt i) = Inl TypeError"

text \<open>
  The body of a list comprehension, run over the elements from left to right; the first
  element on which it raises ends the comprehension.
\<close>

fun comprehension :: "('a \<Rightarrow> pyexn + 'b) \<Rightarrow> 'a list \<Rightarrow> pyexn + 'b list" where
  "comprehension f [] = Inr []"
| "comprehension f (x # xs) =
     (case f x of
        Inl e \<Rightarrow> Inl e
      | Inr y \<Rightarrow> (case comprehension f xs of Inl e \<Rightarrow> Inl e | Inr ys \<Rightarrow> Inr (y # ys)))"

text \<open>
  Line 20:
  \<^verbatim>\<open>riot_ids = [participant['riotId'] for participant in game_data['participants']]\<close>
\<close>

definition riot_ids :: "pyval \<Rightarrow> pyexn + pyval list" where
  "riot_ids game_data =
     (case py_getitem game_data ''participants'' of
        Inl e \<Rightarrow> Inl e
      | Inr participants \<Rightarrow>
          (case py_iter participants of
             Inl e \<Rightarrow> Inl e
           | Inr ps \<Rightarrow> comprehension (\<lambda>participant. py_getitem participant ''riotId'') ps))"

subsection \<open>What print writes\<close>

definition squote :: char where "squote = CHR 0x27"
definition dquote :: char where "dquote = CHR 0x22"
definition backslash :: char where "backslash = CHR 0x5C"
definition newline :: char where "newline = CHR 0x0A"

definition hex_digit :: "nat \<Rightarrow> char" where
  "hex_digit n = ''0123456789abcdef'' ! (n mod 16)"

text \<open>
  \<^verbatim>\<open>str.isprintable\<close> on the code points below 256: the ASCII range from space to
  tilde, and the Latin-1 range without the C1 controls, the no-break space and the soft hyphen.
\<close>

definition printable :: "char \<Rightarrow> bool" where
  "printable c =
     (let n = (of_char c :: nat)
      in (32 \<le> n \<and> n < 127) \<or> (161 \<le> n \<and> n \<noteq> 173))"

text \<open>
  \<^verbatim>\<open>repr\<close> of a string: the quote is the single quote, unless the string holds a single
  quote and no double quote; the quote and the backslash are escaped with a backslash, tab,
  newline and carriage return by their letters, every other unprintable character as
  \<^verbatim>\<open>\xhh\<close>.
\<close>

definition repr_char :: "char \<Rightarrow> char \<Rightarrow> string" where
  "repr_char quote c =
     (if c = quote \<or> c = backslash then [backslash, c]
      else if c = CHR 0x09 then [backslash, CHR ''t'']
      else if c = CHR 0x0A then [backslash, CHR ''n'']
      else if c = CHR 0x0D then [backslash, CHR ''r'']
      else if \<not> printable c then
        [backslash, CHR ''x'', hex_digit (of_char c div 16), hex_digit (of_char c mod 16)]
      else [c])"

definition repr_str :: "string \<Rightarrow> string" where
  "repr_str s =
     (let quote = (if squote \<in> set s \<and> dquote \<notin> set s then dquote else squote)
      in [quote] @ concat (map (repr_char quote) s) @ [quote])"

fun digits :: "nat \<Rightarrow> string" where
  "digits n = (if n < 10 then [hex_digit n] else digits (n div 10) @ [hex_digit (n mod 10)])"

declare digits.simps [simp del]

definition repr_int :: "int \<Rightarrow> string" where
  "repr_int i = (if i < 0 then CHR ''-'' # digits (nat (- i)) else digits (nat i))"

text \<open>\<^verbatim>\<open>', '.join(parts)\<close>\<close>

fun join_comma :: "string list \<Rightarrow> string" where
  "join_comma [] = []"
| "join_comma [p] = p"
| "join_comma (p # q # ps) = p @ '', '' @ join_comma (q # ps)"

text \<open>
  \<^verbatim>\<open>repr\<close> of a value: a list is its elements' \<^verbatim>\<open>repr\<close> in brackets, a dictionary
  its items as \<^verbatim>\<open>key: value\<close> in braces, both in order and separated by a comma and
  a space.
\<close>

fun py_repr :: "pyval \<Rightarrow> string"
  and py_repr_list :: "pyval list \<Rightarrow> string list"
  and py_repr_items :: "(string \<times> pyval) list \<Rightarrow> string list" where
  "py_repr PyNone = ''None''"
| "py_repr (PyBool b) = (if b then ''True'' else ''False'')"
| "py_repr (PyInt i) = repr_int i"
| "py_repr (PyStr s) = repr_str s"
| "py_repr (PyList xs) = ''['' @ join_comma (py_repr_list xs) @ '']''"
| "py_repr (PyDict items) = ''{'' @ join_comma (py_repr_items items) @ ''}''"
| "py_repr_list [] = []"
| "py_repr_list (x # xs) = py_repr x # py_repr_list xs"
| "py_repr_items [] = []"
| "py_repr_items (kv # items) =
     (repr_str (fst kv) @ '': '' @ py_repr (snd kv)) # py_repr_items items"

text \<open>\<^verbatim>\<open>str\<close> of a value: a string is itself, everything else its \<^verbatim>\<open>repr\<close>.\<close>

fun py_str :: "pyval \<Rightarrow> string" where
  "py_str (PyStr s) = s"
| "py_str v = py_repr v"

subsection \<open>Effects, endings and the client library\<close>

text \<open>
  The effects of the script's own statements. \<open>Construct k\<close> is
  \<^verbatim>\<open>LolWatcher(k)\<close>; \<open>BySummoner r p\<close> is the call
  \<^verbatim>\<open>spectator.by_summoner(r, p)\<close>, the one operation of the library that goes to the
  network; \<open>Write ch s\<close> writes the text \<open>s\<close> to a standard stream.

  What the interpreter and the library do below these statements (files, environment,
  connections) is not visible here: the library is a function from arguments to answers.
  The trace therefore says nothing about the file system or the environment of the process.
\<close>

datatype channel = Stdout | Stderr

datatype event =
    Construct string
  | BySummoner string string
  | Write channel string

text \<open>
  How the process ends: the script runs off its last line, it calls
  \<^verbatim>\<open>sys.exit(n)\<close>, or an exception that nothing catches reaches the interpreter, which
  reports it (the traceback naming the exception) and exits with status 1.
\<close>

datatype ending = Finished | SysExit nat | Uncaught pyexn

fun exit_status :: "ending \<Rightarrow> nat" where
  "exit_status Finished = 0"
| "exit_status (SysExit n) = n mod 256"
| "exit_status (Uncaught e) = 1"

record outcome =
  trace :: "event list"
  ended :: ending

text \<open>
  The client library: \<open>LolWatcher\<close> builds a client of type \<open>'w\<close> from an API key,
  \<open>by_summoner\<close> takes the client, a region and a player identifier. Either may raise.
\<close>

record 'w riotwatcher =
  LolWatcher :: "string \<Rightarrow> pyexn + 'w"
  by_summoner :: "'w \<Rightarrow> string \<Rightarrow> string \<Rightarrow> pyexn + pyval"

text \<open>\<^verbatim>\<open>print(v)\<close> appends \<^verbatim>\<open>str(v)\<close> and a newline to standard output.\<close>

definition print :: "pyval \<Rightarrow> event list \<Rightarrow> event list" where
  "print v tr = tr @ [Write Stdout (py_str v @ [newline])]"

definition usage :: string where
  "usage = ''Usage: python3 get_lol_id.py <api_key> <puuid>''"

subsection \<open>The script\<close>

text \<open>
  \<open>argv\<close> is \<^verbatim>\<open>sys.argv\<close>: the script's name followed by the command-line arguments,
  so an invocation with two arguments has \<open>length argv = 3\<close>. The events are appended in
  program order; an exception ends the run where it is raised.
\<close>

definition main :: "'w riotwatcher \<Rightarrow> string list \<Rightarrow> outcome" where
  "main lib argv =
     (if length argv \<noteq> 3 then
        \<lparr>trace = print (PyStr usage) [], ended = SysExit 1\<rparr>
      else
        (let api_key = argv ! 1;
             puuid = argv ! 2;
             tr = [Construct api_key]
         in (case LolWatcher lib api_key of
               Inl e \<Rightarrow> \<lparr>trace = tr, ended = Uncaught e\<rparr>
             | Inr lol_watcher \<Rightarrow>
                 (let tr = tr @ [BySummoner ''jp1'' puuid]
                  in (case by_summoner lib lol_watcher ''jp1'' puuid of
                        Inl e \<Rightarrow> \<lparr>trace = tr, ended = Uncaught e\<rparr>
                      | Inr game_data \<Rightarrow>
                          (case riot_ids game_data of
                             Inl e \<Rightarrow> \<lparr>trace = tr, ended = Uncaught e\<rparr>
                           | Inr ids \<Rightarrow>
                               \<lparr>trace = print (PyList ids) tr, ended = Finished\<rparr>))))))"

subsection \<open>Observations on an outcome\<close>

definition stdout :: "outcome \<Rightarrow> string list" where
  "stdout out = [s. Write Stdout s \<leftarrow> trace out]"

definition stderr :: "outcome \<Rightarrow> string list" where
  "stderr out = [s. Write Stderr s \<leftarrow> trace out]"

definition requests :: "outcome \<Rightarrow> (string \<times> string) list" where
  "requests out = [(r, p). BySummoner r p \<leftarrow> trace out]"

definition constructions :: "outcome \<Rightarrow> string list" where
  "constructions out = [k. Construct k \<leftarrow> trace out]"

definition status :: "outcome \<Rightarrow> nat" where
  "status out = exit_status (ended out)"

subsection \<open>Stubbed clients\<close>

text \<open>
  The test doubles of the specification's testable properties: a client that returns a
  fixed response, a client whose request raises, and a library whose constructor raises.
\<close>

definition stub_returning :: "pyval \<Rightarrow> unit riotwatcher" where
  "stub_returning game_data =
     \<lparr>LolWatcher = (\<lambda>api_key. Inr ()), by_summoner = (\<lambda>w region puuid. Inr game_data)\<rparr>"

definition stub_raising :: "pyexn \<Rightarrow> unit riotwatcher" where
  "stub_raising e =
     \<lparr>LolWatcher = (\<lambda>api_key. Inr ()), by_summoner = (\<lambda>w region puuid. Inl e)\<rparr>"

definition stub_refusing :: "pyexn \<Rightarrow> unit riotwatcher" where
  "stub_refusing e =
     \<lparr>LolWatcher = (\<lambda>api_key. Inl e), by_summoner = (\<lambda>w region puuid. Inl e)\<rparr>"

text \<open>The response of the specification's example, and the line it is printed as.\<close>

definition example_game :: pyval where
  "example_game =
     PyDict [(''participants'',
       PyList [PyDict [(''riotId'', PyStr ''A#1'')], PyDict [(''riotId'', PyStr ''B#2'')]])]"

definition example_line :: string where
  "example_line =
     ''['' @ [squote] @ ''A#1'' @ [squote] @ '', '' @ [squote] @ ''B#2'' @ [squote] @ '']''
       @ [newline]"

definition example_game_extra :: pyval where
  "example_game_extra =
     PyDict [(''gameId'', PyInt 7), (''participants'',
       PyList [PyDict [(''riotId'', PyStr ''A#1''), (''championId'', PyInt 1)],
               PyDict [(''teamId'', PyInt 100), (''riotId'', PyStr ''B#2'')]])]"

definition example_argv :: "string list" where
  "example_argv = [''get_lol_id.py'', ''RGAPI-key'', ''some-puuid'']"

section \<open>The runs of the script\<close>

subsection \<open>The paths of the script\<close>

lemma main_wrong_count:
  "length argv \<noteq> 3 \<Longrightarrow>
     main lib argv = \<lparr>trace = [Write Stdout (usage @ [newline])], ended = SysExit 1\<rparr>"
  by (simp add: main_def print_def)

lemma main_constructor_raises:
  "LolWatcher lib api_key = Inl e \<Longrightarrow>
     main lib [prog, api_key, puuid] = \<lparr>trace = [Construct api_key], ended = Uncaught e\<rparr>"
  by (simp add: main_def)

lemma main_request_raises:
  "LolWatcher lib api_key = Inr w \<Longrightarrow> by_summoner lib w ''jp1'' puuid = Inl e \<Longrightarrow>
     main lib [prog, api_key, puuid] =
       \<lparr>trace = [Construct api_key, BySummoner ''jp1'' puuid], ended = Uncaught e\<rparr>"
  by (simp add: main_def)

lemma main_shape_raises:
  "LolWatcher lib api_key = Inr w \<Longrightarrow> by_summoner lib w ''jp1'' puuid = Inr game_data \<Longrightarrow>
   riot_ids game_data = Inl e \<Longrightarrow>
     main lib [prog, api_key, puuid] =
       \<lparr>trace = [Construct api_key, BySummoner ''jp1'' puuid], ended = Uncaught e\<rparr>"
  by (simp add: main_def)

lemma main_prints:
  "LolWatcher lib api_key = Inr w \<Longrightarrow> by_summoner lib w ''jp1'' puuid = Inr game_data \<Longrightarrow>
   riot_ids game_data = Inr ids \<Longrightarrow>
     main lib [prog, api_key, puuid] =
       \<lparr>trace = [Construct api_key, BySummoner ''jp1'' puuid,
                  Write Stdout (py_repr (PyList ids) @ [newline])],
        ended = Finished\<rparr>"
  by (simp add: main_def print_def)

subsection \<open>Every run is one of four\<close>

text \<open>
  The usage path, a constructor that raises, a request or a response that raises after the
  request was made, and the run that prints.
\<close>

lemma main_cases:
  "(length argv \<noteq> 3
      \<and> main lib argv = \<lparr>trace = [Write Stdout (usage @ [newline])], ended = SysExit 1\<rparr>)
   \<or> (length argv = 3 \<and> (\<exists>e. LolWatcher lib (argv ! 1) = Inl e
      \<and> main lib argv = \<lparr>trace = [Construct (argv ! 1)], ended = Uncaught e\<rparr>))
   \<or> (length argv = 3 \<and> (\<exists>w e. LolWatcher lib (argv ! 1) = Inr w
      \<and> main lib argv =
          \<lparr>trace = [Construct (argv ! 1), BySummoner ''jp1'' (argv ! 2)], ended = Uncaught e\<rparr>))
   \<or> (length argv = 3 \<and> (\<exists>w s. LolWatcher lib (argv ! 1) = Inr w
      \<and> main lib argv =
          \<lparr>trace = [Construct (argv ! 1), BySummoner ''jp1'' (argv ! 2), Write Stdout s],
           ended = Finished\<rparr>))"
  by (auto simp: main_def print_def Let_def split: sum.splits)

lemma requests_main:
  "requests (main lib argv) =
     (if length argv = 3
      then (case LolWatcher lib (argv ! 1) of Inl e \<Rightarrow> [] | Inr w \<Rightarrow> [(''jp1'', argv ! 2)])
      else [])"
  using main_cases [of argv lib] by (auto simp: requests_def)

lemma requests_fixed_region:
  "\<forall>rq \<in> set (requests (main lib argv)). rq = (''jp1'', argv ! 2)"
proof (cases "length argv = 3")
  case True
  then show ?thesis
    by (cases "LolWatcher lib (argv ! 1)") (simp_all only: requests_main, simp_all)
next
  case False
  then show ?thesis by (simp only: requests_main, simp)
qed

text \<open>In every trace a request comes before any write.\<close>

lemma write_after_request:
  assumes "i < length (trace (main lib argv))" and "j < length (trace (main lib argv))"
    and "trace (main lib argv) ! i = Write ch s"
    and "trace (main lib argv) ! j = BySummoner r p"
  shows "j < i"
proof -
  consider
      (usage) "trace (main lib argv) = [Write Stdout (usage @ [newline])]"
    | (refused) "trace (main lib argv) = [Construct (argv ! 1)]"
    | (raised) "trace (main lib argv) = [Construct (argv ! 1), BySummoner ''jp1'' (argv ! 2)]"
    | (printed) t where "trace (main lib argv)
        = [Construct (argv ! 1), BySummoner ''jp1'' (argv ! 2), Write Stdout t]"
    using main_cases [of argv lib] by auto
  then show ?thesis
  proof cases
    case usage
    with assms show ?thesis by simp
  next
    case refused
    with assms show ?thesis by simp
  next
    case raised
    with assms show ?thesis by (cases i) simp_all
  next
    case printed
    with assms(1,3) have "i = 2"
      by (cases i; simp) (rename_tac i', case_tac i'; simp)
    moreover from printed assms(2,4) have "j = 1"
      by (cases j; simp) (rename_tac j', case_tac j'; simp)
    ultimately show ?thesis by simp
  qed
qed

subsection \<open>The comprehension and the printed line\<close>

lemma comprehension_Inr_iff:
  "comprehension f xs = Inr ys \<longleftrightarrow> map f xs = map Inr ys"
proof (induction xs arbitrary: ys)
  case Nil
  show ?case by auto
next
  case (Cons x xs)
  show ?case
  proof (cases "f x")
    case (Inl e)
    then show ?thesis by (cases ys) auto
  next
    case fx: (Inr y)
    show ?thesis
    proof (cases "comprehension f xs")
      case (Inl e)
      have "map f xs \<noteq> map Inr zs" for zs
        using Cons.IH [of zs] Inl by simp
      with fx Inl show ?thesis by (cases ys) auto
    next
      case (Inr zs)
      then have "map f xs = map Inr zs" using Cons.IH by simp
      with fx Inr show ?thesis by (cases ys) auto
    qed
  qed
qed

lemma comprehension_Inl_elem:
  "comprehension f xs = Inl e \<Longrightarrow> \<exists>x \<in> set xs. f x = Inl e"
  by (induction xs) (auto split: sum.splits)

lemma comprehension_raises:
  "x \<in> set xs \<Longrightarrow> f x = Inl e \<Longrightarrow> \<exists>e'. comprehension f xs = Inl e'"
  by (induction xs) (auto split: sum.splits)

lemma py_getitem_raises:
  "py_getitem v key = Inl e \<Longrightarrow> e = KeyError key \<or> e = TypeError"
  by (cases v) (auto split: option.splits)

lemma riot_ids_raises:
  "riot_ids game_data = Inl e \<Longrightarrow>
     e = KeyError ''participants'' \<or> e = KeyError ''riotId'' \<or> e = TypeError"
  unfolding riot_ids_def
  by (auto split: sum.splits dest!: py_getitem_raises comprehension_Inl_elem
      elim: py_iter.elims)

lemma riot_ids_of_list:
  "py_getitem game_data ''participants'' = Inr (PyList ps) \<Longrightarrow>
   map (\<lambda>participant. py_getitem participant ''riotId'') ps = map Inr ids \<Longrightarrow>
     riot_ids game_data = Inr ids"
  by (simp add: riot_ids_def comprehension_Inr_iff)

lemma example_game_participants:
  "py_getitem example_game ''participants'' =
     Inr (PyList [PyDict [(''riotId'', PyStr ''A#1'')], PyDict [(''riotId'', PyStr ''B#2'')]])"
  by (simp add: example_game_def)

lemma repr_example: "py_repr (PyList [PyStr ''A#1'', PyStr ''B#2'']) @ [newline] = example_line"
  by (simp add: example_line_def repr_str_def repr_char_def squote_def dquote_def
      backslash_def printable_def Let_def)

section \<open>The claims\<close>

text \<open>
  Claim C1. An invocation with two arguments, whose client returns a response with a list
  of participants that each carry a \<^verbatim>\<open>riotId\<close>, prints the list of those values
  in the order of the participants, as one line, and exits with status 0.
\<close>

theorem riot_ids_printed_in_order:
  assumes "LolWatcher lib api_key = Inr w"
    and "by_summoner lib w ''jp1'' puuid = Inr game_data"
    and "py_getitem game_data ''participants'' = Inr (PyList ps)"
    and "map (\<lambda>participant. py_getitem participant ''riotId'') ps = map Inr ids"
  shows "stdout (main lib [prog, api_key, puuid]) = [py_repr (PyList ids) @ [newline]]
       \<and> status (main lib [prog, api_key, puuid]) = 0"
proof -
  have "riot_ids game_data = Inr ids"
    using assms(3,4) by (rule riot_ids_of_list)
  with assms(1,2) show ?thesis
    by (simp add: main_prints stdout_def status_def)
qed

text \<open>
  The specification's example: the participants \<^verbatim>\<open>[{"riotId": "A#1"}, {"riotId": "B#2"}]\<close>
  are printed as \<^verbatim>\<open>['A#1', 'B#2']\<close>.
\<close>

theorem riot_ids_printed_in_order_example:
  "stdout (main (stub_returning example_game) example_argv) = [example_line]
   \<and> status (main (stub_returning example_game) example_argv) = 0"
  unfolding example_argv_def repr_example [symmetric]
  using riot_ids_printed_in_order [of "stub_returning example_game" "''RGAPI-key''" "()"
      "''some-puuid''" example_game
      "[PyDict [(''riotId'', PyStr ''A#1'')], PyDict [(''riotId'', PyStr ''B#2'')]]"
      "[PyStr ''A#1'', PyStr ''B#2'']" "''get_lol_id.py''"]
  by (simp add: stub_returning_def example_game_participants)

text \<open>
  Claim C2. An invocation whose argument count is not two (\<^verbatim>\<open>len(sys.argv) != 3\<close>)
  prints the usage message and exits with status 1; it constructs no client and makes no
  request.
\<close>

theorem wrong_argument_count_usage:
  assumes "length argv \<noteq> 3"
  shows "stdout (main lib argv) = [usage @ [newline]]
       \<and> status (main lib argv) = 1
       \<and> status (main lib argv) \<noteq> 0
       \<and> requests (main lib argv) = []
       \<and> constructions (main lib argv) = []"
  using assms
  by (simp add: main_wrong_count stdout_def status_def requests_def constructions_def)

text \<open>No argument, one argument and three arguments.\<close>

theorem wrong_argument_count_usage_examples:
  "stdout (main (stub_returning example_game) [''get_lol_id.py'']) = [usage @ [newline]]
   \<and> status (main (stub_returning example_game) [''get_lol_id.py'']) = 1
   \<and> requests (main (stub_returning example_game) [''get_lol_id.py'']) = []
   \<and> constructions (main (stub_returning example_game) [''get_lol_id.py'']) = []
   \<and> status (main (stub_returning example_game) [''get_lol_id.py'', ''k'']) = 1
   \<and> requests (main (stub_returning example_game) [''get_lol_id.py'', ''k'', ''p'', ''x'']) = []"
  using wrong_argument_count_usage [of "[''get_lol_id.py'']" "stub_returning example_game"]
    wrong_argument_count_usage [of "[''get_lol_id.py'', ''k'']" "stub_returning example_game"]
    wrong_argument_count_usage [of "[''get_lol_id.py'', ''k'', ''p'', ''x'']"
      "stub_returning example_game"]
  by simp

text \<open>
  Claim C3. In an invocation with two arguments, an error raised by the client (by its
  constructor or by the request) is not caught: it ends the process as an uncaught
  exception, with exit status 1 and nothing printed.
\<close>

theorem client_error_propagates:
  assumes "LolWatcher lib api_key = Inl e
         \<or> (\<exists>w. LolWatcher lib api_key = Inr w \<and> by_summoner lib w ''jp1'' puuid = Inl e)"
  shows "ended (main lib [prog, api_key, puuid]) = Uncaught e
       \<and> status (main lib [prog, api_key, puuid]) = 1
       \<and> status (main lib [prog, api_key, puuid]) \<noteq> 0
       \<and> stdout (main lib [prog, api_key, puuid]) = []"
  using assms
  by (auto simp: main_constructor_raises main_request_raises status_def stdout_def)

text \<open>A client that rejects the credential.\<close>

theorem client_error_propagates_example:
  "ended (main (stub_raising (LibraryError ''403 Forbidden'')) example_argv)
     = Uncaught (LibraryError ''403 Forbidden'')
   \<and> status (main (stub_raising (LibraryError ''403 Forbidden'')) example_argv) = 1
   \<and> stdout (main (stub_raising (LibraryError ''403 Forbidden'')) example_argv) = []"
  using client_error_propagates [of "stub_raising (LibraryError ''403 Forbidden'')"
      "''RGAPI-key''" "LibraryError ''403 Forbidden''" "''some-puuid''" "''get_lol_id.py''"]
  by (simp add: stub_raising_def example_argv_def)

text \<open>
  Claim C4. An invocation with two arguments whose client returns a response with an empty
  participant list prints \<^verbatim>\<open>[]\<close> and exits with status 0.
\<close>

theorem empty_participants_prints_empty_list:
  assumes "LolWatcher lib api_key = Inr w"
    and "by_summoner lib w ''jp1'' puuid = Inr game_data"
    and "py_getitem game_data ''participants'' = Inr (PyList [])"
  shows "stdout (main lib [prog, api_key, puuid]) = [''[]'' @ [newline]]
       \<and> status (main lib [prog, api_key, puuid]) = 0"
proof -
  have "riot_ids game_data = Inr []"
    using assms(3) by (simp add: riot_ids_def)
  with assms(1,2) show ?thesis
    by (simp add: main_prints stdout_def status_def)
qed

text \<open>A response with another field and no participants.\<close>

theorem empty_participants_prints_empty_list_example:
  "stdout (main (stub_returning (PyDict [(''gameId'', PyInt 7), (''participants'', PyList [])]))
      example_argv) = [''[]'' @ [newline]]
   \<and> status (main (stub_returning (PyDict [(''gameId'', PyInt 7), (''participants'', PyList [])]))
      example_argv) = 0"
  using empty_participants_prints_empty_list
    [of "stub_returning (PyDict [(''gameId'', PyInt 7), (''participants'', PyList [])])"
      "''RGAPI-key''" "()" "''some-puuid''"
      "PyDict [(''gameId'', PyInt 7), (''participants'', PyList [])]" "''get_lol_id.py''"]
  by (simp add: stub_returning_def example_argv_def)

text \<open>
  Claim C5. In an invocation with two arguments, a response that has no
  \<^verbatim>\<open>participants\<close> field, or that has a participant without a \<^verbatim>\<open>riotId\<close>
  field, is not handled: the run ends with the uncaught \<^verbatim>\<open>KeyError\<close> or
  \<^verbatim>\<open>TypeError\<close> of the failing subscript, the exit status is 1 and nothing is printed
  to standard output.
\<close>

theorem shape_mismatch_crashes:
  assumes "LolWatcher lib api_key = Inr w"
    and "by_summoner lib w ''jp1'' puuid = Inr game_data"
    and "(\<exists>e. py_getitem game_data ''participants'' = Inl e)
       \<or> (\<exists>ps. py_getitem game_data ''participants'' = Inr (PyList ps)
             \<and> (\<exists>p \<in> set ps. \<exists>e. py_getitem p ''riotId'' = Inl e))"
  shows "(\<exists>e. ended (main lib [prog, api_key, puuid]) = Uncaught e
            \<and> (e = KeyError ''participants'' \<or> e = KeyError ''riotId'' \<or> e = TypeError))
       \<and> status (main lib [prog, api_key, puuid]) = 1
       \<and> status (main lib [prog, api_key, puuid]) \<noteq> 0
       \<and> stdout (main lib [prog, api_key, puuid]) = []"
proof -
  have "\<exists>e. riot_ids game_data = Inl e"
    using assms(3)
  proof
    assume "\<exists>e. py_getitem game_data ''participants'' = Inl e"
    then show ?thesis by (auto simp: riot_ids_def)
  next
    assume "\<exists>ps. py_getitem game_data ''participants'' = Inr (PyList ps)
              \<and> (\<exists>p \<in> set ps. \<exists>e. py_getitem p ''riotId'' = Inl e)"
    then obtain ps p e where ps: "py_getitem game_data ''participants'' = Inr (PyList ps)"
      and p: "p \<in> set ps" "py_getitem p ''riotId'' = Inl e"
      by blast
    from p obtain e' where
      "comprehension (\<lambda>participant. py_getitem participant ''riotId'') ps = Inl e'"
      using comprehension_raises [of p ps "\<lambda>participant. py_getitem participant ''riotId''" e]
      by blast
    with ps show ?thesis by (simp add: riot_ids_def)
  qed
  then obtain e where e: "riot_ids game_data = Inl e" ..
  have "main lib [prog, api_key, puuid] =
      \<lparr>trace = [Construct api_key, BySummoner ''jp1'' puuid], ended = Uncaught e\<rparr>"
    using assms(1,2) e by (rule main_shape_raises)
  with riot_ids_raises [OF e] show ?thesis
    by (simp add: status_def stdout_def)
qed

text \<open>A response without participants, and a second participant without a name.\<close>

theorem shape_mismatch_crashes_examples:
  "status (main (stub_returning (PyDict [(''gameId'', PyInt 7)])) example_argv) = 1
   \<and> stdout (main (stub_returning (PyDict [(''gameId'', PyInt 7)])) example_argv) = []
   \<and> status (main (stub_returning (PyDict [(''participants'',
        PyList [PyDict [(''riotId'', PyStr ''A#1'')], PyDict [(''puuid'', PyStr ''x'')]])]))
        example_argv) = 1
   \<and> stdout (main (stub_returning (PyDict [(''participants'',
        PyList [PyDict [(''riotId'', PyStr ''A#1'')], PyDict [(''puuid'', PyStr ''x'')]])]))
        example_argv) = []"
  unfolding example_argv_def
  using shape_mismatch_crashes [of "stub_returning (PyDict [(''gameId'', PyInt 7)])"
      "''RGAPI-key''" "()" "''some-puuid''" "PyDict [(''gameId'', PyInt 7)]" "''get_lol_id.py''"]
    shape_mismatch_crashes [of "stub_returning (PyDict [(''participants'',
        PyList [PyDict [(''riotId'', PyStr ''A#1'')], PyDict [(''puuid'', PyStr ''x'')]])])"
      "''RGAPI-key''" "()" "''some-puuid''" "PyDict [(''participants'',
        PyList [PyDict [(''riotId'', PyStr ''A#1'')], PyDict [(''puuid'', PyStr ''x'')]])]"
      "''get_lol_id.py''"]
  by (simp add: stub_returning_def)

text \<open>
  Claim C6. The request is issued with the region literal \<^verbatim>\<open>'jp1'\<close>, whatever the
  command line is, and with the second argument as the player identifier: every request of
  every run has these two arguments, and a run with two arguments whose client was
  constructed makes this request. The API key is the argument of the constructor and
  reaches the request only as the client it built.
\<close>

theorem request_region_fixed:
  "(\<forall>rq \<in> set (requests (main lib argv)). rq = (''jp1'', argv ! 2))
   \<and> (\<forall>w. LolWatcher lib api_key = Inr w \<longrightarrow>
          requests (main lib [prog, api_key, puuid]) = [(''jp1'', puuid)])"
proof (rule conjI)
  show "\<forall>rq \<in> set (requests (main lib argv)). rq = (''jp1'', argv ! 2)"
    by (rule requests_fixed_region)
  show "\<forall>w. LolWatcher lib api_key = Inr w \<longrightarrow>
      requests (main lib [prog, api_key, puuid]) = [(''jp1'', puuid)]"
    by (simp add: requests_main)
qed

text \<open>Two command lines, the second with region-like arguments: the region stays the same.\<close>

theorem request_region_fixed_examples:
  "requests (main (stub_returning example_game) [''get_lol_id.py'', ''RGAPI-key'', ''some-puuid''])
     = [(''jp1'', ''some-puuid'')]
   \<and> requests (main (stub_returning example_game) [''./x'', ''kr'', ''euw1''])
     = [(''jp1'', ''euw1'')]"
  using request_region_fixed [of "stub_returning example_game" "[]" "''RGAPI-key''"
      "''get_lol_id.py''" "''some-puuid''"]
    request_region_fixed [of "stub_returning example_game" "[]" "''kr''" "''./x''" "''euw1''"]
  by (simp add: stub_returning_def)

text \<open>
  Claim C7, as stated: every run with two arguments makes exactly one request. A run whose
  constructor raises (line 11) ends before line 18 and makes none.
\<close>

theorem no_request_when_constructor_raises:
  "length [''get_lol_id.py'', '''', ''some-puuid''] = 3
   \<and> length (requests (main (stub_refusing (LibraryError ''ValueError''))
        [''get_lol_id.py'', '''', ''some-puuid''])) \<noteq> 1"
  by (simp add: main_def stub_refusing_def requests_def)

text \<open>
  Claim C7, amended. No run makes more than one request; the usage path makes none; a run
  with two arguments makes exactly one when the client is constructed and none when the
  constructor raises; and in every trace the request comes before anything that is written.
\<close>

theorem at_most_one_request:
  "length (requests (main lib argv)) \<le> 1
   \<and> (length argv \<noteq> 3 \<longrightarrow> requests (main lib argv) = [])
   \<and> (length argv = 3 \<longrightarrow>
        (\<forall>w. LolWatcher lib (argv ! 1) = Inr w \<longrightarrow> length (requests (main lib argv)) = 1))
   \<and> (length argv = 3 \<longrightarrow>
        (\<forall>e. LolWatcher lib (argv ! 1) = Inl e \<longrightarrow> requests (main lib argv) = []))
   \<and> (\<forall>i j. i < length (trace (main lib argv)) \<longrightarrow> j < length (trace (main lib argv)) \<longrightarrow>
          (\<exists>ch s. trace (main lib argv) ! i = Write ch s) \<longrightarrow>
          (\<exists>r p. trace (main lib argv) ! j = BySummoner r p) \<longrightarrow> j < i)"
proof -
  have "length (requests (main lib argv)) \<le> 1
      \<and> (length argv \<noteq> 3 \<longrightarrow> requests (main lib argv) = [])
      \<and> (length argv = 3 \<longrightarrow>
           (\<forall>w. LolWatcher lib (argv ! 1) = Inr w \<longrightarrow> length (requests (main lib argv)) = 1))
      \<and> (length argv = 3 \<longrightarrow>
           (\<forall>e. LolWatcher lib (argv ! 1) = Inl e \<longrightarrow> requests (main lib argv) = []))"
    by (simp add: requests_main split: sum.splits)
  moreover have "\<forall>i j. i < length (trace (main lib argv)) \<longrightarrow>
      j < length (trace (main lib argv)) \<longrightarrow>
      (\<exists>ch s. trace (main lib argv) ! i = Write ch s) \<longrightarrow>
      (\<exists>r p. trace (main lib argv) ! j = BySummoner r p) \<longrightarrow> j < i"
    using write_after_request [of _ lib argv] by blast
  ultimately show ?thesis by simp
qed

text \<open>The printing run, the usage path and the refusing constructor.\<close>

theorem at_most_one_request_examples:
  "length (requests (main (stub_returning example_game) example_argv)) = 1
   \<and> requests (main (stub_returning example_game) [''get_lol_id.py'', ''RGAPI-key'']) = []
   \<and> requests (main (stub_refusing (LibraryError ''ValueError'')) example_argv) = []"
proof -
  have "length (requests (main (stub_returning example_game) example_argv)) = 1"
    using at_most_one_request [of "stub_returning example_game" example_argv,
        THEN conjunct2, THEN conjunct2, THEN conjunct1]
    by (simp add: stub_returning_def example_argv_def)
  moreover have
    "requests (main (stub_returning example_game) [''get_lol_id.py'', ''RGAPI-key'']) = []"
    using at_most_one_request [of "stub_returning example_game"
        "[''get_lol_id.py'', ''RGAPI-key'']", THEN conjunct2, THEN conjunct1]
    by simp
  moreover have
    "requests (main (stub_refusing (LibraryError ''ValueError'')) example_argv) = []"
    using at_most_one_request [of "stub_refusing (LibraryError ''ValueError'')" example_argv,
        THEN conjunct2, THEN conjunct2, THEN conjunct2, THEN conjunct1]
    by (simp add: stub_refusing_def example_argv_def)
  ultimately show ?thesis by simp
qed

text \<open>
  Claim C9. On the usage path the message is the only thing written, and it is written to
  standard output: nothing goes to standard error, and the process ends by
  \<^verbatim>\<open>sys.exit(1)\<close>, not by an uncaught exception.
\<close>

theorem usage_on_stdout:
  assumes "length argv \<noteq> 3"
  shows "trace (main lib argv) = [Write Stdout (usage @ [newline])]
       \<and> stderr (main lib argv) = []
       \<and> ended (main lib argv) = SysExit 1"
  using assms by (simp add: main_wrong_count stderr_def)

text \<open>One argument only.\<close>

theorem usage_on_stdout_example:
  "trace (main (stub_raising TypeError) [''get_lol_id.py'', ''RGAPI-key''])
     = [Write Stdout (usage @ [newline])]
   \<and> stderr (main (stub_raising TypeError) [''get_lol_id.py'', ''RGAPI-key'']) = []
   \<and> ended (main (stub_raising TypeError) [''get_lol_id.py'', ''RGAPI-key'']) = SysExit 1"
  using usage_on_stdout [of "[''get_lol_id.py'', ''RGAPI-key'']" "stub_raising TypeError"]
  by simp

text \<open>
  Claim C10. Two runs with two arguments each, whose clients return responses with the same
  sequence of \<^verbatim>\<open>riotId\<close> values (identical responses in particular), print the
  same text, whatever the script names, the API keys and the player identifiers are.
\<close>

theorem printed_line_depends_on_riot_ids_only:
  assumes "LolWatcher lib1 api_key1 = Inr w1"
    and "by_summoner lib1 w1 ''jp1'' puuid1 = Inr game_data1"
    and "LolWatcher lib2 api_key2 = Inr w2"
    and "by_summoner lib2 w2 ''jp1'' puuid2 = Inr game_data2"
    and "riot_ids game_data1 = riot_ids game_data2"
  shows "stdout (main lib1 [prog1, api_key1, puuid1]) = stdout (main lib2 [prog2, api_key2, puuid2])"
proof (cases "riot_ids game_data1")
  case (Inl e)
  with assms show ?thesis
    by (simp add: main_shape_raises [where e = e] stdout_def)
next
  case (Inr ids)
  with assms show ?thesis
    by (simp add: main_prints [where ids = ids] stdout_def)
qed

text \<open>
  Different keys and identifiers with the same response, and two responses that differ
  outside the \<^verbatim>\<open>riotId\<close> fields.
\<close>

lemma example_games_same_riot_ids: "riot_ids example_game_extra = riot_ids example_game"
  by (simp add: riot_ids_def example_game_def example_game_extra_def)

theorem printed_line_depends_on_riot_ids_only_example:
  "stdout (main (stub_returning example_game) [''get_lol_id.py'', ''RGAPI-key'', ''some-puuid''])
     = stdout (main (stub_returning example_game)
         [''./get_lol_id.py'', ''other-key'', ''other-puuid''])
   \<and> stdout (main (stub_returning example_game_extra)
         [''get_lol_id.py'', ''RGAPI-key'', ''some-puuid''])
     = stdout (main (stub_returning example_game)
         [''./get_lol_id.py'', ''other-key'', ''other-puuid''])"
  using printed_line_depends_on_riot_ids_only [of "stub_returning example_game" "''RGAPI-key''"
      "()" "''some-puuid''" example_game "stub_returning example_game" "''other-key''" "()"
      "''other-puuid''" example_game "''get_lol_id.py''" "''./get_lol_id.py''"]
    printed_line_depends_on_riot_ids_only [of "stub_returning example_game_extra"
      "''RGAPI-key''" "()" "''some-puuid''" example_game_extra "stub_returning example_game"
      "''other-key''" "()" "''other-puuid''" example_game "''get_lol_id.py''"
      "''./get_lol_id.py''"]
  by (simp add: stub_returning_def example_games_same_riot_ids)


end
